theory Spec2Isabelle
  imports Main
begin

section \<open>ViewMixin of backbone.marionette: lifecycle, event composition, cascading\<close>

text \<open>
  The development embeds \<^verbatim>\<open>src/mixins/view.js\<close>. The file defines one object,
  \<^verbatim>\<open>ViewMixin\<close>, whose methods are mixed into every view. Only this file is at
  hand: the imported \<^verbatim>\<open>triggerMethod\<close>, the other mixins (behaviors, UI, entity
  events, triggers, common helpers), Backbone and underscore are collaborators.
  \<^item> A collaborator that is called for its effect is recorded as an entry of an
    effect trace, together with the receiver's identity and lifecycle flags at the
    moment of the call.
  \<^item> A collaborator that is called for its result is a field of the view record
    holding that result (a function of the call's arguments).
  \<^item> Collaborators are total: they return. The only \<^verbatim>\<open>throw\<close> of the file is the
    one of \<^verbatim>\<open>_ensureViewIsIntact\<close>, and it is a branch of the model.
  A leading underscore of a source name is written \<open>u_\<close>, since an Isabelle name
  starts with a letter.
\<close>

subsection \<open>JavaScript values\<close>

text \<open>
  The values that the file inspects: \<^verbatim>\<open>undefined\<close>, \<^verbatim>\<open>null\<close>, booleans, strings,
  functions (named, opaque), plain objects used as hashes and references to any
  other object (an element handle, a model). A hash is a plain object, one whose
  prototype is \<^verbatim>\<open>Object.prototype\<close>, given by its own enumerable properties in
  insertion order, as an object literal lists them; \<^verbatim>\<open>__proto__\<close> is not among their
  names, since in a literal and in an assignment that name stands for the
  prototype. Numbers are outside the model.
\<close>

datatype val =
    Undefined
  | Null
  | Bool bool
  | Str string
  | Fun string
  | Hash "(string \<times> val) list"
  | Ref nat

text \<open>JavaScript truthiness, as \<^verbatim>\<open>if (x)\<close>, \<^verbatim>\<open>!!x\<close>, \<^verbatim>\<open>x || y\<close> and \<^verbatim>\<open>x && y\<close> test it.\<close>

fun truthy :: "val \<Rightarrow> bool" where
  "truthy Undefined = False"
| "truthy Null = False"
| "truthy (Bool b) = b"
| "truthy (Str s) = (s \<noteq> [])"
| "truthy (Fun f) = True"
| "truthy (Hash h) = True"
| "truthy (Ref r) = True"

text \<open>\<^verbatim>\<open>x || y\<close>\<close>

definition js_or :: "val \<Rightarrow> val \<Rightarrow> val" where
  "js_or x y = (if truthy x then x else y)"

text \<open>underscore's \<^verbatim>\<open>_.isFunction\<close> and \<^verbatim>\<open>_.isString\<close>.\<close>

fun isFunction :: "val \<Rightarrow> bool" where
  "isFunction (Fun f) = True"
| "isFunction _ = False"

fun isString :: "val \<Rightarrow> bool" where
  "isString (Str s) = True"
| "isString _ = False"

text \<open>
  The enumerable properties of a value, as \<^verbatim>\<open>_.allKeys\<close> and \<^verbatim>\<open>for ... in\<close> list
  them: the own properties of a hash (what it inherits from \<^verbatim>\<open>Object.prototype\<close>
  is not enumerable); no other value has any here.
\<close>

fun entries :: "val \<Rightarrow> (string \<times> val) list" where
  "entries (Hash h) = h"
| "entries _ = []"

text \<open>
  What every plain object inherits: the properties of \<^verbatim>\<open>Object.prototype\<close>, as
  ECMAScript with its Annex B defines them. All are functions but \<^verbatim>\<open>__proto__\<close>,
  an accessor that yields the prototype, \<^verbatim>\<open>Object.prototype\<close> itself, for which
  \<open>Ref 0\<close> stands.
\<close>

definition Object_prototype :: "(string \<times> val) list" where
  "Object_prototype =
     [(''constructor'', Fun ''Object''),
      (''toString'', Fun ''Object.prototype.toString''),
      (''toLocaleString'', Fun ''Object.prototype.toLocaleString''),
      (''valueOf'', Fun ''Object.prototype.valueOf''),
      (''hasOwnProperty'', Fun ''Object.prototype.hasOwnProperty''),
      (''isPrototypeOf'', Fun ''Object.prototype.isPrototypeOf''),
      (''propertyIsEnumerable'', Fun ''Object.prototype.propertyIsEnumerable''),
      (''__defineGetter__'', Fun ''Object.prototype.__defineGetter__''),
      (''__defineSetter__'', Fun ''Object.prototype.__defineSetter__''),
      (''__lookupGetter__'', Fun ''Object.prototype.__lookupGetter__''),
      (''__lookupSetter__'', Fun ''Object.prototype.__lookupSetter__''),
      (''__proto__'', Ref 0)]"

text \<open>
  \<^verbatim>\<open>obj[key]\<close> on a plain object with the own properties \<open>h\<close>: the own property
  of that name, else the inherited one, else \<^verbatim>\<open>undefined\<close>.
\<close>

definition plain_property :: "(string \<times> val) list \<Rightarrow> string \<Rightarrow> val" where
  "plain_property h key =
     (case map_of h key of
        Some v \<Rightarrow> v
      | None \<Rightarrow> (case map_of Object_prototype key of Some v \<Rightarrow> v | None \<Rightarrow> Undefined))"

text \<open>
  \<^verbatim>\<open>obj[key] = value\<close> on a hash: an existing key keeps its place, a new key goes
  last.
\<close>

fun assign :: "(string \<times> val) list \<Rightarrow> string \<Rightarrow> val \<Rightarrow> (string \<times> val) list" where
  "assign [] key v = [(key, v)]"
| "assign ((k, w) # h) key v = (if k = key then (k, v) # h else (k, w) # assign h key v)"

text \<open>
  underscore's \<^verbatim>\<open>_.extend(obj, ...sources)\<close> on a hash \<^verbatim>\<open>obj\<close>: for each source in
  order, for each key of the source (none when the source is not an object),
  \<^verbatim>\<open>obj[key] = source[key]\<close>.
\<close>

definition extend_source :: "(string \<times> val) list \<Rightarrow> val \<Rightarrow> (string \<times> val) list" where
  "extend_source h source =
     fold (\<lambda>key h'. assign h' key (plain_property (entries source) key))
       (map fst (entries source)) h"

definition underscore_extend :: "(string \<times> val) list \<Rightarrow> val list \<Rightarrow> (string \<times> val) list" where
  "underscore_extend h sources = fold (\<lambda>source h'. extend_source h' source) sources h"

subsection \<open>Views and the chain of \<^verbatim>\<open>_parent\<close> back-references\<close>

text \<open>
  The fields of a view that the file reads or writes, then the results of the
  collaborators it calls for a value:
  \<^item> \<open>childViewEventPrefix\<close>: the string that
    \<^verbatim>\<open>getOption('childViewEventPrefix')\<close> resolves to;
  \<^item> \<open>getOption_childViewEvents\<close>, \<open>getOption_childViewTriggers\<close>:
    \<^verbatim>\<open>this.getOption('childViewEvents')\<close>, \<^verbatim>\<open>this.getOption('childViewTriggers')\<close>;
  \<^item> \<open>getValue\<close>, \<open>normalizeUIKeys\<close>, \<open>normalizeMethods\<close>: the methods of these
    names, as functions of their argument;
  \<^item> \<open>result_triggers\<close>: \<^verbatim>\<open>_.result(this, 'triggers')\<close>;
  \<^item> \<open>u_getViewTriggers\<close>: \<^verbatim>\<open>this._getViewTriggers(this, triggers)\<close> as a function
    of \<^verbatim>\<open>triggers\<close>;
  \<^item> \<open>u_getBehaviorEvents\<close>, \<open>u_getBehaviorTriggers\<close>:
    \<^verbatim>\<open>this._getBehaviorEvents()\<close>, \<^verbatim>\<open>this._getBehaviorTriggers()\<close>;
  \<^item> \<open>u_getUI\<close>: \<^verbatim>\<open>this._getUI(name)\<close> as a function of \<^verbatim>\<open>name\<close>;
  \<^item> \<open>engine_member\<close>: \<^verbatim>\<open>x[key]\<close> as the JavaScript engine running the view's
    methods computes it for a value \<^verbatim>\<open>x\<close> that is not a plain object (a string, a
    function, a boolean, another object), as a function of \<^verbatim>\<open>x\<close> and \<^verbatim>\<open>key\<close>;
  \<^item> \<open>imported_triggerMethod\<close>: what the imported
    \<^verbatim>\<open>triggerMethod.apply(this, args)\<close> returns, as a function of the event name
    and the remaining arguments: the result of the view's \<^verbatim>\<open>on\<close>-method for the
    event when it has one.
  An event name is a string.
\<close>

record view =
  cid :: string
  u_isDestroyed :: bool
  u_isRendered :: bool
  u_isAttached :: bool
  events :: val
  triggers :: val
  model :: val
  collection :: val
  u_childViewEvents :: val
  u_childViewTriggers :: val
  childViewEventPrefix :: string
  getOption_childViewEvents :: val
  getOption_childViewTriggers :: val
  getValue :: "val \<Rightarrow> val"
  normalizeUIKeys :: "val \<Rightarrow> val"
  normalizeMethods :: "val \<Rightarrow> val"
  result_triggers :: val
  u_getViewTriggers :: "val \<Rightarrow> val"
  u_getBehaviorEvents :: val
  u_getBehaviorTriggers :: val
  u_getUI :: "string \<Rightarrow> val"
  engine_member :: "val \<Rightarrow> string \<Rightarrow> val"
  imported_triggerMethod :: "string \<Rightarrow> val list \<Rightarrow> val"

text \<open>
  \<^verbatim>\<open>x[key]\<close> in a method of the view \<open>this\<close>, for a value \<^verbatim>\<open>x\<close> that is not
  \<^verbatim>\<open>undefined\<close> or \<^verbatim>\<open>null\<close> (on these the lookup throws; the file looks up only
  behind a test of \<^verbatim>\<open>x\<close>): a plain object answers with its own property or with
  the one it inherits, any other value as the engine has it.
\<close>

definition property :: "view \<Rightarrow> val \<Rightarrow> string \<Rightarrow> val" where
  "property this x key =
     (case x of
        Hash h \<Rightarrow> plain_property h key
      | _ \<Rightarrow> engine_member this x key)"

text \<open>
  An object of the \<^verbatim>\<open>_parent\<close> chain: a view, or a container that is not one (a
  region). \<open>instanceofView\<close> is the outcome of \<^verbatim>\<open>parent instanceof View\<close>.
\<close>

datatype node = Node (instanceofView: bool) (obj: view) (u_parent: "node option")

subsection \<open>Effects and errors\<close>

text \<open>
  The calls made for their effect: the imported \<^verbatim>\<open>triggerMethod\<close>, the application
  of a \<^verbatim>\<open>childViewEvents\<close> function, the helpers of the other mixins (under their
  own names), Backbone's \<^verbatim>\<open>delegateEvents\<close> with the hash it is given, and
  \<^verbatim>\<open>stopListening\<close>. An effect is a call with the \<^verbatim>\<open>cid\<close> of its receiver and the
  three flags of the receiver when the call is made.
\<close>

datatype call =
    Imported_triggerMethod string "val list"
  | U_triggerEventOnBehaviors string "val list"
  | Apply_childViewEvents val "val list"
  | U_proxyBehaviorViewProperties
  | Backbone_delegateEvents val
  | U_delegateEntityEvents val val
  | U_delegateBehaviorEntityEvents
  | U_undelegateEntityEvents val val
  | U_undelegateBehaviorEntityEvents
  | U_bindUIElements
  | U_bindBehaviorUIElements
  | U_unbindUIElements
  | U_unbindBehaviorUIElements
  | U_removeElement
  | U_removeChildren
  | U_destroyBehaviors "val list"
  | StopListening

datatype effect =
  Effect (receiver: string) (saw_destroyed: bool) (saw_rendered: bool) (saw_attached: bool)
    (invoked: call)

definition emit :: "view \<Rightarrow> call \<Rightarrow> effect" where
  "emit this c = Effect (cid this) (u_isDestroyed this) (u_isRendered this) (u_isAttached this) c"

datatype error = MarionetteError (name: string) (message: string)

subsection \<open>The flags\<close>

text \<open>
  \<^verbatim>\<open>isDestroyed: function() { return !!this._isDestroyed; }\<close>, and the same for
  \<^verbatim>\<open>isRendered\<close> and \<^verbatim>\<open>isAttached\<close>.
\<close>

definition isDestroyed :: "view \<Rightarrow> bool" where
  "isDestroyed this = (\<not> \<not> u_isDestroyed this)"

definition isRendered :: "view \<Rightarrow> bool" where
  "isRendered this = (\<not> \<not> u_isRendered this)"

definition isAttached :: "view \<Rightarrow> bool" where
  "isAttached this = (\<not> \<not> u_isAttached this)"

subsection \<open>The parent-chain locator\<close>

text \<open>
  \<^verbatim>\<open>
  _parentView: function() {
    var parent  = this._parent;
    while (parent) {
      if (parent instanceof View) { return parent; }
      parent = parent._parent;
    }
  }
  \<close>
  The loop is a recursion on the chain, which is finite. \<open>depth\<close> counts the
  objects above one; it measures the recursion of the dispatcher.
\<close>

fun parentView_loop :: "node option \<Rightarrow> node option" where
  "parentView_loop None = None"
| "parentView_loop (Some (Node isView v p)) =
     (if isView then Some (Node isView v p) else parentView_loop p)"

definition u_parentView :: "node \<Rightarrow> node option" where
  "u_parentView this = parentView_loop (u_parent this)"

fun depth :: "node \<Rightarrow> nat" where
  "depth (Node isView v None) = 0"
| "depth (Node isView v (Some p)) = Suc (depth p)"

subsection \<open>The method-event dispatcher\<close>

text \<open>
  \<^verbatim>\<open>
  triggerMethod: function(...args) {
    var ret = triggerMethod.apply(this, args);
    this._triggerEventOnBehaviors(...args);
    this._triggerEventOnParentLayout(...args);
    return ret;
  },
  _triggerEventOnParentLayout: function(eventName, ...args) {
    var layoutView = this._parentView();
    if (!layoutView) { return; }
    var eventPrefix = layoutView.getOption('childViewEventPrefix');
    var prefixedEventName = eventPrefix + ':' + eventName;
    layoutView.triggerMethod(prefixedEventName, ...args);
    var childViewEvents = layoutView.normalizeMethods(layoutView._childViewEvents);
    if (!!childViewEvents && _.isFunction(childViewEvents[eventName])) {
      childViewEvents[eventName].apply(layoutView, args);
    }
    var childViewTriggers = layoutView._childViewTriggers;
    if (childViewTriggers && _.isString(childViewTriggers[eventName])) {
      layoutView.triggerMethod(childViewTriggers[eventName], ...args);
    }
  }
  \<close>
  Both return the calls they make, in order; \<^verbatim>\<open>triggerMethod\<close> also returns
  \<^verbatim>\<open>ret\<close>. The ancestor found is an instance of \<^verbatim>\<open>View\<close>, into which this mixin is
  mixed, so its \<^verbatim>\<open>triggerMethod\<close> is the one defined here: the two functions call
  each other, each time higher in the chain.
\<close>

function triggerMethod :: "node \<Rightarrow> string \<Rightarrow> val list \<Rightarrow> val \<times> effect list"
  and u_triggerEventOnParentLayout :: "node \<Rightarrow> string \<Rightarrow> val list \<Rightarrow> effect list"
where
  "triggerMethod this eventName args =
     (let ret = imported_triggerMethod (obj this) eventName args;
          t1 = [emit (obj this) (Imported_triggerMethod eventName args)];
          t2 = [emit (obj this) (U_triggerEventOnBehaviors eventName args)];
          t3 = u_triggerEventOnParentLayout this eventName args
      in (ret, t1 @ t2 @ t3))"
| "u_triggerEventOnParentLayout this eventName args =
     (case u_parentView this of
        None \<Rightarrow> []
      | Some layoutView \<Rightarrow>
          (let eventPrefix = childViewEventPrefix (obj layoutView);
               prefixedEventName = eventPrefix @ '':'' @ eventName;
               t1 = snd (triggerMethod layoutView prefixedEventName args);
               childViewEvents = normalizeMethods (obj layoutView) (u_childViewEvents (obj layoutView));
               t2 = (if truthy childViewEvents \<and> isFunction (property (obj layoutView) childViewEvents eventName)
                     then [emit (obj layoutView)
                             (Apply_childViewEvents
                                (property (obj layoutView) childViewEvents eventName) args)]
                     else []);
               childViewTriggers = u_childViewTriggers (obj layoutView);
               t3 = (if truthy childViewTriggers \<and> isString (property (obj layoutView) childViewTriggers eventName)
                     then (case property (obj layoutView) childViewTriggers eventName of
                             Str s \<Rightarrow> snd (triggerMethod layoutView s args)
                           | _ \<Rightarrow> [])
                     else [])
           in t1 @ t2 @ t3))"
  by pat_completeness auto
termination
proof -
  let ?m = "\<lambda>x. case x of
               Inl (this, e, a) \<Rightarrow> 2 * depth this + 1
             | Inr (this, e, a) \<Rightarrow> 2 * depth this"
  have loop: "depth lv < (case p of None \<Rightarrow> 0 | Some q \<Rightarrow> Suc (depth q))"
    if "parentView_loop p = Some lv" for p lv
    using that
  proof (induction p rule: parentView_loop.induct)
    case 1
    then show ?case by simp
  next
    case (2 isView v p)
    then show ?case by (cases p) (auto split: if_splits)
  qed
  have up: "depth lv < depth this" if "u_parentView this = Some lv" for this lv
  proof (cases this)
    case (Node isView v p)
    with that loop [of p lv] show ?thesis
      by (cases p) (simp_all add: u_parentView_def)
  qed
  show ?thesis
  proof (relation "measure ?m", goal_cases)
    case 1
    show ?case by simp
  next
    case (2 this eventName args)
    show ?case by simp
  next
    case 3
    from up [OF 3(1)] show ?case by simp
  next
    case 4
    from up [OF 4(1)] show ?case by simp
  qed
qed

subsection \<open>Event composition\<close>

text \<open>
  \<^verbatim>\<open>
  _buildEventProxies: function() {
    this._childViewEvents = this.getValue(this.getOption('childViewEvents'));
    this._childViewTriggers = this.getValue(this.getOption('childViewTriggers'));
  },
  getEvents: function(eventsArg) {
    var events = this.getValue(eventsArg || this.events);
    return this.normalizeUIKeys(events);
  },
  getTriggers: function() {
    if (!this.triggers) { return; }
    var triggers = this.normalizeUIKeys(_.result(this, 'triggers'));
    return this._getViewTriggers(this, triggers);
  },
  delegateEvents: function(eventsArg) {
    this._proxyBehaviorViewProperties();
    this._buildEventProxies();
    var viewEvents = this.getEvents(eventsArg);
    if (typeof eventsArg === 'undefined') { this.events = viewEvents; }
    var combinedEvents = _.extend({},
      this._getBehaviorEvents(), viewEvents, this._getBehaviorTriggers(), this.getTriggers());
    Backbone.View.prototype.delegateEvents.call(this, combinedEvents);
    return this;
  }
  \<close>
  A method that returns \<^verbatim>\<open>this\<close> after changing it or calling collaborators returns
  the view and the calls.
\<close>

definition u_buildEventProxies :: "view \<Rightarrow> view" where
  "u_buildEventProxies this =
     (let this1 = this\<lparr>u_childViewEvents := getValue this (getOption_childViewEvents this)\<rparr>
      in this1\<lparr>u_childViewTriggers := getValue this1 (getOption_childViewTriggers this1)\<rparr>)"

definition getEvents :: "view \<Rightarrow> val \<Rightarrow> val" where
  "getEvents this eventsArg =
     (let events' = getValue this (js_or eventsArg (events this))
      in normalizeUIKeys this events')"

definition getTriggers :: "view \<Rightarrow> val" where
  "getTriggers this =
     (if \<not> truthy (triggers this) then Undefined
      else
        (let triggers' = normalizeUIKeys this (result_triggers this)
         in u_getViewTriggers this triggers'))"

definition delegateEvents :: "view \<Rightarrow> val \<Rightarrow> view \<times> effect list" where
  "delegateEvents this eventsArg =
     (let t1 = [emit this U_proxyBehaviorViewProperties];
          this1 = u_buildEventProxies this;
          viewEvents = getEvents this1 eventsArg;
          this2 = (if eventsArg = Undefined then this1\<lparr>events := viewEvents\<rparr> else this1);
          combinedEvents = Hash (underscore_extend []
             [u_getBehaviorEvents this2,
              viewEvents,
              u_getBehaviorTriggers this2,
              getTriggers this2]);
          t2 = [emit this2 (Backbone_delegateEvents combinedEvents)]
      in (this2, t1 @ t2))"

subsection \<open>Entity events and UI elements\<close>

text \<open>
  \<^verbatim>\<open>
  delegateEntityEvents: function() {
    this._delegateEntityEvents(this.model, this.collection);
    this._delegateBehaviorEntityEvents();
    return this;
  },
  undelegateEntityEvents: function() {
    this._undelegateEntityEvents(this.model, this.collection);
    this._undelegateBehaviorEntityEvents();
    return this;
  },
  bindUIElements: function() {
    this._bindUIElements();
    this._bindBehaviorUIElements();
    return this;
  },
  unbindUIElements: function() {
    this._unbindUIElements();
    this._unbindBehaviorUIElements();
    return this;
  }
  \<close>
\<close>

definition delegateEntityEvents :: "view \<Rightarrow> view \<times> effect list" where
  "delegateEntityEvents this =
     (this, [emit this (U_delegateEntityEvents (model this) (collection this)),
             emit this U_delegateBehaviorEntityEvents])"

definition undelegateEntityEvents :: "view \<Rightarrow> view \<times> effect list" where
  "undelegateEntityEvents this =
     (this, [emit this (U_undelegateEntityEvents (model this) (collection this)),
             emit this U_undelegateBehaviorEntityEvents])"

definition bindUIElements :: "view \<Rightarrow> view \<times> effect list" where
  "bindUIElements this =
     (this, [emit this U_bindUIElements, emit this U_bindBehaviorUIElements])"

definition unbindUIElements :: "view \<Rightarrow> view \<times> effect list" where
  "unbindUIElements this =
     (this, [emit this U_unbindUIElements, emit this U_unbindBehaviorUIElements])"

subsection \<open>The intactness guard\<close>

text \<open>
  \<^verbatim>\<open>
  _ensureViewIsIntact: function() {
    if (this._isDestroyed) {
      throw new MarionetteError({
        name: 'ViewDestroyedError',
        message: 'View (cid: "' + this.cid + '") has already been destroyed and cannot be used.'
      });
    }
  },
  getUI: function(name) {
    this._ensureViewIsIntact();
    return this._getUI(name);
  }
  \<close>
  The character \<open>CHR 0x22\<close> is the double quote of the message.
\<close>

definition u_ensureViewIsIntact :: "view \<Rightarrow> error + unit" where
  "u_ensureViewIsIntact this =
     (if u_isDestroyed this
      then Inl (MarionetteError ''ViewDestroyedError''
             (''View (cid: '' @ [CHR 0x22] @ cid this @ [CHR 0x22]
                @ '') has already been destroyed and cannot be used.''))
      else Inr ())"

definition getUI :: "view \<Rightarrow> string \<Rightarrow> error + val" where
  "getUI this name' =
     (case u_ensureViewIsIntact this of
        Inl e \<Rightarrow> Inl e
      | Inr _ \<Rightarrow> Inr (u_getUI this name'))"

subsection \<open>Destroying a view\<close>

text \<open>
  \<^verbatim>\<open>
  destroy: function(...args) {
    if (this._isDestroyed) { return this; }
    this.triggerMethod('before:destroy', ...args);
    this._isDestroyed = true;
    this._isRendered = false;
    this.unbindUIElements();
    this._removeElement();
    this._removeChildren();
    this._destroyBehaviors(args);
    this.triggerMethod('destroy', ...args);
    this.stopListening();
    return this;
  }
  \<close>
\<close>

definition destroy :: "node \<Rightarrow> val list \<Rightarrow> node \<times> effect list" where
  "destroy this args =
     (if u_isDestroyed (obj this) then (this, [])
      else
        (let t1 = snd (triggerMethod this ''before:destroy'' args);
             this1 = Node (instanceofView this)
                       ((obj this)\<lparr>u_isDestroyed := True, u_isRendered := False\<rparr>)
                       (u_parent this);
             t2 = snd (unbindUIElements (obj this1));
             t3 = [emit (obj this1) U_removeElement];
             t4 = [emit (obj this1) U_removeChildren];
             t5 = [emit (obj this1) (U_destroyBehaviors args)];
             t6 = snd (triggerMethod this1 ''destroy'' args);
             t7 = [emit (obj this1) StopListening]
         in (this1, t1 @ t2 @ t3 @ t4 @ t5 @ t6 @ t7)))"

text \<open>Calling \<^verbatim>\<open>destroy\<close> \<open>n\<close> times in a row on the same view.\<close>

fun destroy_times :: "nat \<Rightarrow> node \<Rightarrow> val list \<Rightarrow> node \<times> effect list" where
  "destroy_times 0 this args = (this, [])"
| "destroy_times (Suc n) this args =
     (let (this1, t1) = destroy this args;
          (this2, t2) = destroy_times n this1 args
      in (this2, t1 @ t2))"

subsection \<open>Notions used by the statements\<close>

text \<open>The objects reached from a view by following \<^verbatim>\<open>_parent\<close>, nearest first.\<close>

fun chain :: "node option \<Rightarrow> node list" where
  "chain None = []"
| "chain (Some (Node isView v p)) = Node isView v p # chain p"

definition ancestors :: "node \<Rightarrow> node list" where
  "ancestors this = chain (u_parent this)"

text \<open>
  An effect is on an ancestor view when its receiver and the flags it saw are
  those of a first-class view among the ancestors.
\<close>

definition on_ancestor_view :: "node \<Rightarrow> effect \<Rightarrow> bool" where
  "on_ancestor_view this eff =
     (\<exists>p \<in> set (ancestors this). instanceofView p \<and> eff = emit (obj p) (invoked eff))"

text \<open>
  The precedence of the four event sources, as a lookup: the view's triggers, else
  the behaviors' triggers, else the view's events, else the behaviors' events.
\<close>

definition precedence :: "val \<Rightarrow> val \<Rightarrow> val \<Rightarrow> val \<Rightarrow> string \<Rightarrow> val option" where
  "precedence behaviorEvents viewEvents behaviorTriggers viewTriggers key =
     (case map_of (entries viewTriggers) key of
        Some h \<Rightarrow> Some h
      | None \<Rightarrow>
          (case map_of (entries behaviorTriggers) key of
             Some h \<Rightarrow> Some h
           | None \<Rightarrow>
               (case map_of (entries viewEvents) key of
                  Some h \<Rightarrow> Some h
                | None \<Rightarrow> map_of (entries behaviorEvents) key)))"

text \<open>
  A view as it is created: the mixin's own defaults (\<^verbatim>\<open>_isDestroyed\<close>,
  \<^verbatim>\<open>_isRendered\<close> and \<^verbatim>\<open>_isAttached\<close> false, \<^verbatim>\<open>childViewEventPrefix\<close>
  \<^verbatim>\<open>'childview'\<close>), nothing configured, and the simplest collaborators: helpers that
  return their argument, no cached UI element, no \<^verbatim>\<open>on\<close>-method. It serves the
  examples.
\<close>

definition inert :: "string \<Rightarrow> view" where
  "inert c =
     \<lparr>cid = c, u_isDestroyed = False, u_isRendered = False, u_isAttached = False,
      events = Undefined, triggers = Undefined, model = Undefined, collection = Undefined,
      u_childViewEvents = Undefined, u_childViewTriggers = Undefined,
      childViewEventPrefix = ''childview'',
      getOption_childViewEvents = Undefined, getOption_childViewTriggers = Undefined,
      getValue = (\<lambda>x. x), normalizeUIKeys = (\<lambda>x. x), normalizeMethods = (\<lambda>x. x),
      result_triggers = Undefined, u_getViewTriggers = (\<lambda>x. x),
      u_getBehaviorEvents = Undefined, u_getBehaviorTriggers = Undefined,
      u_getUI = (\<lambda>n. Undefined), engine_member = (\<lambda>x key. Undefined),
      imported_triggerMethod = (\<lambda>e a. Undefined)\<rparr>"

text \<open>
  A tree for the examples: a grandparent view \<open>G\<close> whose prefix is \<^verbatim>\<open>'layout'\<close>, a
  region, a parent view \<open>P\<close> with a \<^verbatim>\<open>childViewEvents\<close> function and a
  \<^verbatim>\<open>childViewTriggers\<close> string under \<^verbatim>\<open>'save'\<close> and others under
  \<^verbatim>\<open>'childview:save'\<close>, a region, and a rendered and
  attached child view \<open>C\<close> that caches an element for \<^verbatim>\<open>'foo'\<close> and whose
  \<^verbatim>\<open>onSave\<close> returns a string; a destroyed view \<open>D\<close> in the grandparent's region; a
  view \<open>O\<close> held by a region that no view owns; a view \<open>V\<close> with events, triggers
  and behaviors whose keys collide.
\<close>

definition tree_G :: node where
  "tree_G = Node True ((inert ''G'')\<lparr>childViewEventPrefix := ''layout''\<rparr>) None"

definition tree_R1 :: node where
  "tree_R1 = Node False (inert ''R1'') (Some tree_G)"

definition tree_P :: node where
  "tree_P = Node True
     ((inert ''P'')\<lparr>u_childViewEvents :=
                       Hash [(''childview:save'', Fun ''onPrefixed''),
                             (''save'', Fun ''onChildSave'')],
                     u_childViewTriggers :=
                       Hash [(''childview:save'', Str ''prefixed''), (''save'', Str ''saved'')]\<rparr>)
     (Some tree_R1)"

definition tree_R2 :: node where
  "tree_R2 = Node False (inert ''R2'') (Some tree_P)"

definition tree_C :: node where
  "tree_C = Node True
     ((inert ''C'')\<lparr>u_isRendered := True, u_isAttached := True,
                     u_getUI := (\<lambda>n. if n = ''foo'' then Ref 7 else Undefined),
                     imported_triggerMethod :=
                       (\<lambda>e a. if e = ''save'' then Str ''kept'' else Undefined)\<rparr>)
     (Some tree_R2)"

definition tree_D :: node where
  "tree_D = Node True ((inert ''D'')\<lparr>u_isDestroyed := True\<rparr>) (Some tree_R1)"

definition tree_O :: node where
  "tree_O = Node True (inert ''O'') (Some (Node False (inert ''R0'') None))"

text \<open>
  Collaborators for the view \<open>V\<close>: a \<^verbatim>\<open>normalizeUIKeys\<close> that resolves the placeholders
  \<^verbatim>\<open>@ui.a\<close> and \<^verbatim>\<open>@ui.c\<close> in the keys of a hash, a \<^verbatim>\<open>getValue\<close> that calls the function
  \<^verbatim>\<open>eventsFn\<close> and returns any other value as it is, and a \<^verbatim>\<open>_getViewTriggers\<close> that
  puts a handler under each key.
\<close>

definition ui_key :: "string \<Rightarrow> string" where
  "ui_key k =
     (if k = ''click @ui.a'' then ''click .a''
      else if k = ''keyup @ui.a'' then ''keyup .a''
      else if k = ''click @ui.c'' then ''click .c''
      else k)"

definition tree_V :: view where
  "tree_V =
     (inert ''V'')\<lparr>
       events := Hash [(''click @ui.a'', Str ''onA'')],
       triggers := Hash [(''click @ui.c'', Str ''trig:c'')],
       getValue :=
         (\<lambda>x. if x = Fun ''eventsFn''
              then Hash [(''click @ui.a'', Str ''argA''), (''keyup @ui.a'', Str ''argKey'')]
              else x),
       normalizeUIKeys := (\<lambda>x. Hash (map (\<lambda>(k, v). (ui_key k, v)) (entries x))),
       result_triggers := Hash [(''click @ui.c'', Str ''trig:c'')],
       u_getViewTriggers := (\<lambda>t. Hash (map (\<lambda>(k, v). (k, Fun ''viewTrigger'')) (entries t))),
       u_getBehaviorEvents :=
         Hash [(''click .b'', Str ''onB''), (''click .a'', Str ''behaviorA'')],
       u_getBehaviorTriggers :=
         Hash [(''click .c'', Fun ''behaviorTrigger''), (''click .d'', Fun ''behaviorTrigger'')]\<rparr>"

text \<open>
  A view \<open>K\<close> whose parent is the view \<open>Q\<close>. \<open>Q\<close> has an empty \<^verbatim>\<open>childViewEvents\<close>
  hash, and the string \<^verbatim>\<open>'ab'\<close> where a \<^verbatim>\<open>childViewTriggers\<close> hash is expected; the
  engine answers \<^verbatim>\<open>'ab'['0']\<close> with \<^verbatim>\<open>'a'\<close>.
\<close>

definition tree_Q :: node where
  "tree_Q = Node True
     ((inert ''Q'')\<lparr>u_childViewEvents := Hash [],
                     u_childViewTriggers := Str ''ab'',
                     engine_member :=
                       (\<lambda>x key. if x = Str ''ab'' \<and> key = ''0'' then Str ''a'' else Undefined)\<rparr>)
     None"

definition tree_K :: node where
  "tree_K = Node True (inert ''K'') (Some tree_Q)"

lemmas tree_defs =
  tree_G_def tree_R1_def tree_P_def tree_R2_def tree_C_def inert_def

section \<open>Properties\<close>

subsection \<open>Auxiliary facts\<close>

declare triggerMethod.simps [simp del] u_triggerEventOnParentLayout.simps [simp del]

lemma triggerMethod_unfold:
  "triggerMethod this e args =
     (imported_triggerMethod (obj this) e args,
      emit (obj this) (Imported_triggerMethod e args)
        # emit (obj this) (U_triggerEventOnBehaviors e args)
        # u_triggerEventOnParentLayout this e args)"
  by (simp add: triggerMethod.simps)

lemma cascade_parent_only:
  "u_parent this = u_parent that \<Longrightarrow>
   u_triggerEventOnParentLayout this e args = u_triggerEventOnParentLayout that e args"
  by (simp add: u_triggerEventOnParentLayout.simps u_parentView_def)

lemma destroy_sets_flag: "u_isDestroyed (obj (fst (destroy this args)))"
  by (simp add: destroy_def Let_def)

lemma destroy_times_destroyed:
  "u_isDestroyed (obj this) \<Longrightarrow> destroy_times n this args = (this, [])"
  by (induction n) (simp_all add: destroy_def)

lemma map_of_assign: "map_of (assign h key v) = (map_of h)(key \<mapsto> v)"
  by (induction h key v rule: assign.induct) auto

lemma keys_assign: "fst ` set (assign h key v) = insert key (fst ` set h)"
  by (induction h key v rule: assign.induct) auto

lemma distinct_assign: "distinct (map fst h) \<Longrightarrow> distinct (map fst (assign h key v))"
  by (induction h key v rule: assign.induct) (auto simp: keys_assign)

lemma map_of_fold_assign:
  "map_of (fold (\<lambda>key h'. assign h' key (f key)) ks h) k =
     (if k \<in> set ks then Some (f k) else map_of h k)"
  by (induction ks arbitrary: h) (auto simp: map_of_assign)

lemma distinct_fold_assign:
  "distinct (map fst h) \<Longrightarrow> distinct (map fst (fold (\<lambda>key h'. assign h' key (f key)) ks h))"
  by (induction ks arbitrary: h) (auto simp: distinct_assign)

lemma map_of_extend_source:
  "map_of (extend_source h source) k =
     (case map_of (entries source) k of Some v \<Rightarrow> Some v | None \<Rightarrow> map_of h k)"
proof (cases "map_of (entries source) k")
  case None
  then have "k \<notin> set (map fst (entries source))"
    by (simp add: map_of_eq_None_iff)
  with None show ?thesis
    by (simp add: extend_source_def map_of_fold_assign)
next
  case (Some v)
  then have "k \<in> set (map fst (entries source))"
    by (metis map_of_eq_None_iff option.distinct(1) set_map)
  with Some show ?thesis
    by (simp add: extend_source_def map_of_fold_assign plain_property_def)
qed

lemma distinct_extend_source:
  "distinct (map fst h) \<Longrightarrow> distinct (map fst (extend_source h source))"
  by (simp add: extend_source_def distinct_fold_assign)

lemma getEvents_buildEventProxies:
  "getEvents (u_buildEventProxies this) eventsArg = getEvents this eventsArg"
  by (simp add: getEvents_def u_buildEventProxies_def Let_def)

lemma parentView_loop_find: "parentView_loop p = List.find instanceofView (chain p)"
  by (induction p rule: parentView_loop.induct) auto

lemma parentView_loop_Some:
  "parentView_loop p = Some lv \<Longrightarrow>
   lv \<in> set (chain p) \<and> instanceofView lv \<and> set (chain (u_parent lv)) \<subseteq> set (chain p)"
  by (induction p rule: parentView_loop.induct) (auto split: if_splits)

lemma parentView_Some:
  "u_parentView this = Some lv \<Longrightarrow>
   lv \<in> set (ancestors this) \<and> instanceofView lv \<and> set (ancestors lv) \<subseteq> set (ancestors this)"
  using parentView_loop_Some [of "u_parent this" lv]
  by (simp add: u_parentView_def ancestors_def)

lemma on_ancestor_view_up:
  "u_parentView this = Some lv \<Longrightarrow> on_ancestor_view lv eff \<Longrightarrow> on_ancestor_view this eff"
  using parentView_Some [of this lv] by (auto simp: on_ancestor_view_def)

lemma on_ancestor_view_emit:
  "u_parentView this = Some lv \<Longrightarrow> on_ancestor_view this (emit (obj lv) c)"
  using parentView_Some [of this lv] by (auto simp: on_ancestor_view_def emit_def)

lemma cascade_unfold:
  "u_parentView this = Some lv \<Longrightarrow>
   u_triggerEventOnParentLayout this e args =
     snd (triggerMethod lv (childViewEventPrefix (obj lv) @ '':'' @ e) args)
     @ (if truthy (normalizeMethods (obj lv) (u_childViewEvents (obj lv))) \<and>
           isFunction (property (obj lv) (normalizeMethods (obj lv) (u_childViewEvents (obj lv))) e)
        then [emit (obj lv)
                (Apply_childViewEvents
                   (property (obj lv) (normalizeMethods (obj lv) (u_childViewEvents (obj lv))) e) args)]
        else [])
     @ (if truthy (u_childViewTriggers (obj lv)) \<and>
           isString (property (obj lv) (u_childViewTriggers (obj lv)) e)
        then (case property (obj lv) (u_childViewTriggers (obj lv)) e of
                Str s \<Rightarrow> snd (triggerMethod lv s args)
              | _ \<Rightarrow> [])
        else [])"
  by (simp add: u_triggerEventOnParentLayout.simps Let_def)

lemma cascade_None:
  "u_parentView this = None \<Longrightarrow> u_triggerEventOnParentLayout this e args = []"
  by (simp add: u_triggerEventOnParentLayout.simps)

lemma cascade_on_ancestors:
  "(\<forall>eff \<in> set (snd (triggerMethod this e args)).
       eff = emit (obj this) (invoked eff) \<or> on_ancestor_view this eff)"
  "(\<forall>eff \<in> set (u_triggerEventOnParentLayout this e args). on_ancestor_view this eff)"
proof (induction this e args and this e args
         rule: triggerMethod_u_triggerEventOnParentLayout.induct)
  case (1 this eventName args)
  then show ?case
    by (auto simp: triggerMethod_unfold emit_def)
next
  case (2 this eventName args)
  show ?case
  proof (cases "u_parentView this")
    case None
    then show ?thesis by (simp add: cascade_None)
  next
    case (Some lv)
    have own: "on_ancestor_view this eff" if "eff = emit (obj lv) (invoked eff)" for eff
      using on_ancestor_view_emit [OF Some, of "invoked eff"] that by simp
    have up: "on_ancestor_view this eff" if "on_ancestor_view lv eff" for eff
      using on_ancestor_view_up [OF Some that] .
    have t1: "\<forall>eff \<in> set (snd (triggerMethod lv
                 (childViewEventPrefix (obj lv) @ '':'' @ eventName) args)).
               on_ancestor_view this eff"
      using "2.IH"(1) [OF Some refl refl] own up by blast
    have t2: "on_ancestor_view this (emit (obj lv) c)" for c
      by (rule on_ancestor_view_emit [OF Some])
    have t3: "\<forall>eff \<in> set (snd (triggerMethod lv s args)). on_ancestor_view this eff"
      if "truthy (u_childViewTriggers (obj lv))"
         "property (obj lv) (u_childViewTriggers (obj lv)) eventName = Str s" for s
    proof -
      from that have cond: "truthy (u_childViewTriggers (obj lv)) \<and>
          isString (property (obj lv) (u_childViewTriggers (obj lv)) eventName)"
        by simp
      from "2.IH"(2) [OF Some refl refl refl refl refl refl cond that(2)] own up
      show ?thesis by blast
    qed
    have t3': "\<forall>eff \<in> set (if truthy (u_childViewTriggers (obj lv)) \<and>
           isString (property (obj lv) (u_childViewTriggers (obj lv)) eventName)
        then (case property (obj lv) (u_childViewTriggers (obj lv)) eventName of
                Str s \<Rightarrow> snd (triggerMethod lv s args)
              | _ \<Rightarrow> [])
        else []). on_ancestor_view this eff"
    proof (cases "property (obj lv) (u_childViewTriggers (obj lv)) eventName")
      case (Str s)
      show ?thesis
      proof (cases "truthy (u_childViewTriggers (obj lv))")
        case True
        from t3 [OF True Str] show ?thesis
          by (simp add: Str True)
      next
        case False
        then show ?thesis by simp
      qed
    qed simp_all
    have t2': "\<forall>eff \<in> set (if truthy (normalizeMethods (obj lv) (u_childViewEvents (obj lv))) \<and>
           isFunction (property (obj lv) (normalizeMethods (obj lv) (u_childViewEvents (obj lv))) eventName)
        then [emit (obj lv)
                (Apply_childViewEvents
                   (property (obj lv) (normalizeMethods (obj lv) (u_childViewEvents (obj lv))) eventName)
                   args)]
        else []). on_ancestor_view this eff"
      using t2 by simp
    show ?thesis
    proof
      fix eff
      assume "eff \<in> set (u_triggerEventOnParentLayout this eventName args)"
      then have "eff \<in> set (snd (triggerMethod lv
                 (childViewEventPrefix (obj lv) @ '':'' @ eventName) args)) \<or>
           eff \<in> set (if truthy (normalizeMethods (obj lv) (u_childViewEvents (obj lv))) \<and>
                  isFunction (property (obj lv) (normalizeMethods (obj lv) (u_childViewEvents (obj lv)))
                    eventName)
               then [emit (obj lv)
                       (Apply_childViewEvents
                          (property (obj lv) (normalizeMethods (obj lv) (u_childViewEvents (obj lv)))
                             eventName) args)]
               else []) \<or>
           eff \<in> set (if truthy (u_childViewTriggers (obj lv)) \<and>
                isString (property (obj lv) (u_childViewTriggers (obj lv)) eventName)
             then (case property (obj lv) (u_childViewTriggers (obj lv)) eventName of
                     Str s \<Rightarrow> snd (triggerMethod lv s args)
                   | _ \<Rightarrow> [])
             else [])"
        unfolding cascade_unfold [OF Some] set_append Un_iff .
      with t1 t2' t3' show "on_ancestor_view this eff"
        by blast
    qed
  qed
qed

lemmas eval_defs =
  tree_defs u_triggerEventOnParentLayout.simps triggerMethod.simps u_parentView_def
  property_def plain_property_def Object_prototype_def emit_def Let_def

subsection \<open>Destroying twice\<close>

text \<open>
  Claim C1. On a view whose \<^verbatim>\<open>_isDestroyed\<close> is set, \<^verbatim>\<open>destroy\<close> returns the view as
  it is and calls nothing: the effect trace is empty and no field changes. Hence
  \<open>n \<ge> 1\<close> calls in a row return the same view and the same trace as one call.
\<close>

theorem destroy_idempotent:
  "(u_isDestroyed (obj this) \<longrightarrow> destroy this args = (this, [])) \<and>
   (0 < n \<longrightarrow> destroy_times n this args = destroy this args)"
proof (intro conjI impI)
  assume "u_isDestroyed (obj this)"
  then show "destroy this args = (this, [])"
    by (simp add: destroy_def)
next
  assume "0 < n"
  then obtain m where n: "n = Suc m"
    by (cases n) auto
  obtain this1 t1 where d: "destroy this args = (this1, t1)"
    by (cases "destroy this args")
  have "u_isDestroyed (obj this1)"
    using destroy_sets_flag [of this args] d by simp
  then have "destroy_times m this1 args = (this1, [])"
    by (rule destroy_times_destroyed)
  with n d show "destroy_times n this args = destroy this args"
    by simp
qed

theorem destroy_idempotent_witness:
  "u_isDestroyed (obj tree_D) \<and> destroy tree_D [Ref 1] = (tree_D, []) \<and>
   (0::nat) < 3 \<and> destroy_times 3 tree_C [Ref 1] = destroy tree_C [Ref 1]"
  using destroy_idempotent [of tree_D "[Ref 1]" 3] destroy_idempotent [of tree_C "[Ref 1]" 3]
  by (simp add: tree_D_def inert_def)

subsection \<open>The teardown sequence\<close>

text \<open>
  Claim C2. On a live view \<^verbatim>\<open>destroy\<close> makes exactly these calls, in this order:
  the dispatch of \<^verbatim>\<open>'before:destroy'\<close> (on the view, on its behaviors, then the
  cascade to the ancestor view), all of which see the view not yet destroyed; then,
  with \<^verbatim>\<open>_isDestroyed\<close> set and \<^verbatim>\<open>_isRendered\<close> cleared, the unbinding of the view's
  and of the behaviors' UI elements, the removal of the element, the removal of the
  children, the destruction of the behaviors, the dispatch of \<^verbatim>\<open>'destroy'\<close> and
  \<^verbatim>\<open>stopListening\<close>. The view returned differs from the given one in the two flags
  only.
\<close>

theorem destroy_live_sequence:
  assumes "\<not> u_isDestroyed (obj this)"
  shows "destroy this args =
     (Node (instanceofView this)
        ((obj this)\<lparr>u_isDestroyed := True, u_isRendered := False\<rparr>) (u_parent this),
      [Effect (cid (obj this)) False (u_isRendered (obj this)) (u_isAttached (obj this))
         (Imported_triggerMethod ''before:destroy'' args),
       Effect (cid (obj this)) False (u_isRendered (obj this)) (u_isAttached (obj this))
         (U_triggerEventOnBehaviors ''before:destroy'' args)]
      @ u_triggerEventOnParentLayout this ''before:destroy'' args
      @ [Effect (cid (obj this)) True False (u_isAttached (obj this)) U_unbindUIElements,
         Effect (cid (obj this)) True False (u_isAttached (obj this)) U_unbindBehaviorUIElements,
         Effect (cid (obj this)) True False (u_isAttached (obj this)) U_removeElement,
         Effect (cid (obj this)) True False (u_isAttached (obj this)) U_removeChildren,
         Effect (cid (obj this)) True False (u_isAttached (obj this)) (U_destroyBehaviors args),
         Effect (cid (obj this)) True False (u_isAttached (obj this))
           (Imported_triggerMethod ''destroy'' args),
         Effect (cid (obj this)) True False (u_isAttached (obj this))
           (U_triggerEventOnBehaviors ''destroy'' args)]
      @ u_triggerEventOnParentLayout this ''destroy'' args
      @ [Effect (cid (obj this)) True False (u_isAttached (obj this)) StopListening])"
proof -
  let ?this1 = "Node (instanceofView this)
        ((obj this)\<lparr>u_isDestroyed := True, u_isRendered := False\<rparr>) (u_parent this)"
  have same: "u_triggerEventOnParentLayout ?this1 ''destroy'' args =
              u_triggerEventOnParentLayout this ''destroy'' args"
    by (rule cascade_parent_only) simp
  from assms show ?thesis
    by (simp add: destroy_def Let_def triggerMethod_unfold same unbindUIElements_def emit_def)
qed

theorem destroy_live_sequence_witness:
  "\<not> u_isDestroyed (obj tree_C) \<and>
   snd (destroy tree_C [Ref 1]) =
     [Effect ''C'' False True True (Imported_triggerMethod ''before:destroy'' [Ref 1]),
      Effect ''C'' False True True (U_triggerEventOnBehaviors ''before:destroy'' [Ref 1]),
      Effect ''P'' False False False
        (Imported_triggerMethod ''childview:before:destroy'' [Ref 1]),
      Effect ''P'' False False False
        (U_triggerEventOnBehaviors ''childview:before:destroy'' [Ref 1]),
      Effect ''G'' False False False
        (Imported_triggerMethod ''layout:childview:before:destroy'' [Ref 1]),
      Effect ''G'' False False False
        (U_triggerEventOnBehaviors ''layout:childview:before:destroy'' [Ref 1]),
      Effect ''C'' True False True U_unbindUIElements,
      Effect ''C'' True False True U_unbindBehaviorUIElements,
      Effect ''C'' True False True U_removeElement,
      Effect ''C'' True False True U_removeChildren,
      Effect ''C'' True False True (U_destroyBehaviors [Ref 1]),
      Effect ''C'' True False True (Imported_triggerMethod ''destroy'' [Ref 1]),
      Effect ''C'' True False True (U_triggerEventOnBehaviors ''destroy'' [Ref 1]),
      Effect ''P'' False False False (Imported_triggerMethod ''childview:destroy'' [Ref 1]),
      Effect ''P'' False False False
        (U_triggerEventOnBehaviors ''childview:destroy'' [Ref 1]),
      Effect ''G'' False False False
        (Imported_triggerMethod ''layout:childview:destroy'' [Ref 1]),
      Effect ''G'' False False False
        (U_triggerEventOnBehaviors ''layout:childview:destroy'' [Ref 1]),
      Effect ''C'' True False True StopListening]"
proof -
  have live: "\<not> u_isDestroyed (obj tree_C)"
    by (simp add: tree_C_def inert_def)
  show ?thesis
    using live destroy_live_sequence [OF live, of "[Ref 1]"]
    by (simp add: tree_defs u_triggerEventOnParentLayout.simps triggerMethod.simps
          u_parentView_def property_def plain_property_def Object_prototype_def emit_def Let_def)
qed

subsection \<open>The flags after \<^verbatim>\<open>destroy\<close>\<close>

text \<open>
  The statement that \<^verbatim>\<open>destroy\<close> leaves both \<^verbatim>\<open>isRendered()\<close> and \<^verbatim>\<open>isAttached()\<close>
  false fails on the rendered and attached view \<open>C\<close>: \<^verbatim>\<open>destroy\<close> writes
  \<^verbatim>\<open>_isDestroyed\<close> and \<^verbatim>\<open>_isRendered\<close> and never \<^verbatim>\<open>_isAttached\<close>.
\<close>

theorem destroy_keeps_isAttached_counterexample:
  "\<not> (isRendered (obj (fst (destroy tree_C []))) = False \<and>
      isAttached (obj (fst (destroy tree_C []))) = False)"
  by (simp add: destroy_def Let_def tree_C_def inert_def isAttached_def isRendered_def)

text \<open>
  Claim C3, amended. After \<^verbatim>\<open>destroy\<close> on a live view, \<^verbatim>\<open>isDestroyed()\<close> is true and
  \<^verbatim>\<open>isRendered()\<close> is false, and \<^verbatim>\<open>isAttached()\<close> returns what it returned before
  the call.
\<close>

theorem destroy_flags:
  "\<not> isDestroyed (obj this) \<Longrightarrow>
   isDestroyed (obj (fst (destroy this args))) \<and>
   \<not> isRendered (obj (fst (destroy this args))) \<and>
   isAttached (obj (fst (destroy this args))) = isAttached (obj this)"
  by (simp add: destroy_def Let_def isDestroyed_def isRendered_def isAttached_def)

theorem destroy_flags_witness:
  "\<not> isDestroyed (obj tree_C) \<and> isAttached (obj tree_C) \<and>
   isDestroyed (obj (fst (destroy tree_C []))) \<and>
   \<not> isRendered (obj (fst (destroy tree_C []))) \<and>
   isAttached (obj (fst (destroy tree_C [])))"
proof -
  have live: "\<not> isDestroyed (obj tree_C)"
    by (simp add: tree_C_def inert_def isDestroyed_def)
  have att: "isAttached (obj tree_C)"
    by (simp add: tree_C_def inert_def isAttached_def)
  from live att destroy_flags [OF live, of "[]"] show ?thesis
    by simp
qed

subsection \<open>The composed delegation map\<close>

text \<open>
  Claim C4. \<^verbatim>\<open>delegateEvents\<close> hands to Backbone's \<^verbatim>\<open>delegateEvents\<close> exactly the hash
  obtained by extending an empty hash with four sources in this order: what
  \<^verbatim>\<open>_getBehaviorEvents\<close> returns; the view's own events, that is the argument when
  it is given and \<^verbatim>\<open>this.events\<close> otherwise, resolved by \<^verbatim>\<open>getValue\<close> and then
  normalized by \<^verbatim>\<open>normalizeUIKeys\<close>; what \<^verbatim>\<open>_getBehaviorTriggers\<close> returns; and the
  view's triggers, when it has any, normalized and expanded by
  \<^verbatim>\<open>_getViewTriggers\<close>. The hash has each key once, and looking a key up in it gives
  the entry of the latest of the four sources that has the key.
\<close>

theorem delegateEvents_merge_order:
  "(let viewEvents =
          normalizeUIKeys this
            (getValue this (if truthy eventsArg then eventsArg else events this));
        viewTriggers =
          (if truthy (triggers this)
           then u_getViewTriggers this (normalizeUIKeys this (result_triggers this))
           else Undefined);
        H = underscore_extend []
              [u_getBehaviorEvents this, viewEvents, u_getBehaviorTriggers this, viewTriggers]
    in snd (delegateEvents this eventsArg) =
         [emit this U_proxyBehaviorViewProperties,
          emit this (Backbone_delegateEvents (Hash H))] \<and>
       distinct (map fst H) \<and>
       map_of H key =
         precedence (u_getBehaviorEvents this) viewEvents
           (u_getBehaviorTriggers this) viewTriggers key)"
proof -
  let ?viewEvents =
    "normalizeUIKeys this (getValue this (if truthy eventsArg then eventsArg else events this))"
  let ?viewTriggers =
    "if truthy (triggers this)
     then u_getViewTriggers this (normalizeUIKeys this (result_triggers this))
     else Undefined"
  let ?H = "underscore_extend []
              [u_getBehaviorEvents this, ?viewEvents, u_getBehaviorTriggers this, ?viewTriggers]"
  have ev: "getEvents (u_buildEventProxies this) eventsArg = ?viewEvents"
    by (simp add: getEvents_def u_buildEventProxies_def Let_def js_or_def)
  have trace: "snd (delegateEvents this eventsArg) =
         [emit this U_proxyBehaviorViewProperties,
          emit this (Backbone_delegateEvents (Hash ?H))]"
    by (simp add: delegateEvents_def Let_def ev)
       (simp add: u_buildEventProxies_def Let_def getTriggers_def emit_def)
  have dist: "distinct (map fst ?H)"
    by (simp add: underscore_extend_def distinct_extend_source)
  have look: "map_of ?H key =
         precedence (u_getBehaviorEvents this) ?viewEvents
           (u_getBehaviorTriggers this) ?viewTriggers key"
    by (simp add: underscore_extend_def map_of_extend_source precedence_def
             split: option.splits)
  from trace dist look show ?thesis
    by (simp add: Let_def)
qed

theorem delegateEvents_merge_order_witness:
  "snd (delegateEvents tree_V Undefined) =
     [Effect ''V'' False False False U_proxyBehaviorViewProperties,
      Effect ''V'' False False False
        (Backbone_delegateEvents
           (Hash [(''click .b'', Str ''onB''), (''click .a'', Str ''onA''),
                  (''click .c'', Fun ''viewTrigger''), (''click .d'', Fun ''behaviorTrigger'')]))] \<and>
   snd (delegateEvents tree_V (Fun ''eventsFn'')) =
     [Effect ''V'' False False False U_proxyBehaviorViewProperties,
      Effect ''V'' False False False
        (Backbone_delegateEvents
           (Hash [(''click .b'', Str ''onB''), (''click .a'', Str ''argA''),
                  (''keyup .a'', Str ''argKey''), (''click .c'', Fun ''viewTrigger''),
                  (''click .d'', Fun ''behaviorTrigger'')]))]"
  using delegateEvents_merge_order [of tree_V Undefined "''click .a''"]
        delegateEvents_merge_order [of tree_V "Fun ''eventsFn''" "''click .a''"]
  by (simp add: tree_V_def inert_def ui_key_def Let_def underscore_extend_def extend_source_def
        plain_property_def precedence_def emit_def)

subsection \<open>The order of one dispatch\<close>

text \<open>
  Claim C5. One call of \<^verbatim>\<open>triggerMethod\<close> returns what the imported
  \<^verbatim>\<open>triggerMethod\<close>, which invokes the view's own \<^verbatim>\<open>on\<close>-method, returns on the
  view. Its calls are, in order: that invocation on the view itself, the
  notification of the view's behaviors, and then the cascade, every call of which
  is on a first-class view among the ancestors.
\<close>

theorem triggerMethod_order:
  "fst (triggerMethod this e args) = imported_triggerMethod (obj this) e args \<and>
   snd (triggerMethod this e args) =
     emit (obj this) (Imported_triggerMethod e args)
       # emit (obj this) (U_triggerEventOnBehaviors e args)
       # u_triggerEventOnParentLayout this e args \<and>
   (\<forall>eff \<in> set (u_triggerEventOnParentLayout this e args). on_ancestor_view this eff)"
  using cascade_on_ancestors(2) [of this e args]
  by (simp add: triggerMethod_unfold)

theorem triggerMethod_order_witness:
  "fst (triggerMethod tree_C ''save'' [Ref 1]) = Str ''kept'' \<and>
   snd (triggerMethod tree_C ''save'' [Ref 1]) =
     [Effect ''C'' False True True (Imported_triggerMethod ''save'' [Ref 1]),
      Effect ''C'' False True True (U_triggerEventOnBehaviors ''save'' [Ref 1]),
      Effect ''P'' False False False (Imported_triggerMethod ''childview:save'' [Ref 1]),
      Effect ''P'' False False False (U_triggerEventOnBehaviors ''childview:save'' [Ref 1]),
      Effect ''G'' False False False (Imported_triggerMethod ''layout:childview:save'' [Ref 1]),
      Effect ''G'' False False False
        (U_triggerEventOnBehaviors ''layout:childview:save'' [Ref 1]),
      Effect ''P'' False False False (Apply_childViewEvents (Fun ''onChildSave'') [Ref 1]),
      Effect ''P'' False False False (Imported_triggerMethod ''saved'' [Ref 1]),
      Effect ''P'' False False False (U_triggerEventOnBehaviors ''saved'' [Ref 1]),
      Effect ''G'' False False False (Imported_triggerMethod ''layout:saved'' [Ref 1]),
      Effect ''G'' False False False (U_triggerEventOnBehaviors ''layout:saved'' [Ref 1])] \<and>
   on_ancestor_view tree_C
     (Effect ''P'' False False False (Apply_childViewEvents (Fun ''onChildSave'') [Ref 1]))"
  using triggerMethod_order [of tree_C "''save''" "[Ref 1]"]
  by (simp add: tree_defs u_triggerEventOnParentLayout.simps triggerMethod.simps
        u_parentView_def property_def plain_property_def Object_prototype_def emit_def Let_def on_ancestor_view_def ancestors_def)

subsection \<open>The name forwarded to the ancestor\<close>

text \<open>
  Claim C6. When the view has an ancestor view, the cascade of an event \<open>e\<close> starts
  with the ancestor's own dispatch and notification under the name made of the
  ancestor's \<^verbatim>\<open>childViewEventPrefix\<close>, a colon and \<open>e\<close>; an ancestor of the ancestor
  comes next, under its own prefix put before that name, one prefix per hop; the
  prefix of a view that sets none is \<^verbatim>\<open>'childview'\<close>. A function that the ancestor's
  \<^verbatim>\<open>childViewEvents\<close> holds under \<open>e\<close> itself is applied, and a string that its
  \<^verbatim>\<open>childViewTriggers\<close> holds under \<open>e\<close> itself is dispatched on the ancestor.
\<close>

theorem cascade_prefix_per_hop:
  assumes "u_parentView this = Some lv"
  shows "take 2 (u_triggerEventOnParentLayout this e args) =
           [emit (obj lv)
              (Imported_triggerMethod (childViewEventPrefix (obj lv) @ '':'' @ e) args),
            emit (obj lv)
              (U_triggerEventOnBehaviors (childViewEventPrefix (obj lv) @ '':'' @ e) args)] \<and>
         (\<forall>g. u_parentView lv = Some g \<longrightarrow>
            take 2 (drop 2 (u_triggerEventOnParentLayout this e args)) =
              [emit (obj g)
                 (Imported_triggerMethod
                    (childViewEventPrefix (obj g) @ '':'' @ childViewEventPrefix (obj lv)
                       @ '':'' @ e) args),
               emit (obj g)
                 (U_triggerEventOnBehaviors
                    (childViewEventPrefix (obj g) @ '':'' @ childViewEventPrefix (obj lv)
                       @ '':'' @ e) args)]) \<and>
         childViewEventPrefix (inert c) = ''childview'' \<and>
         (truthy (normalizeMethods (obj lv) (u_childViewEvents (obj lv))) \<and>
          isFunction (property (obj lv) (normalizeMethods (obj lv) (u_childViewEvents (obj lv))) e) \<longrightarrow>
            emit (obj lv)
              (Apply_childViewEvents
                 (property (obj lv) (normalizeMethods (obj lv) (u_childViewEvents (obj lv))) e) args)
              \<in> set (u_triggerEventOnParentLayout this e args)) \<and>
         (\<forall>s. truthy (u_childViewTriggers (obj lv)) \<and>
              property (obj lv) (u_childViewTriggers (obj lv)) e = Str s \<longrightarrow>
            emit (obj lv) (Imported_triggerMethod s args)
              \<in> set (u_triggerEventOnParentLayout this e args))"
proof (intro conjI allI impI)
  let ?pe = "childViewEventPrefix (obj lv) @ '':'' @ e"
  show "take 2 (u_triggerEventOnParentLayout this e args) =
           [emit (obj lv) (Imported_triggerMethod ?pe args),
            emit (obj lv) (U_triggerEventOnBehaviors ?pe args)]"
    by (simp add: cascade_unfold [OF assms] triggerMethod_unfold)
  show "take 2 (drop 2 (u_triggerEventOnParentLayout this e args)) =
              [emit (obj g)
                 (Imported_triggerMethod (childViewEventPrefix (obj g) @ '':'' @ ?pe) args),
               emit (obj g)
                 (U_triggerEventOnBehaviors (childViewEventPrefix (obj g) @ '':'' @ ?pe) args)]"
    if "u_parentView lv = Some g" for g
    by (simp add: cascade_unfold [OF assms] cascade_unfold [OF that] triggerMethod_unfold)
  show "childViewEventPrefix (inert c) = ''childview''"
    by (simp add: inert_def)
  show "emit (obj lv)
          (Apply_childViewEvents
             (property (obj lv) (normalizeMethods (obj lv) (u_childViewEvents (obj lv))) e) args)
          \<in> set (u_triggerEventOnParentLayout this e args)"
    if "truthy (normalizeMethods (obj lv) (u_childViewEvents (obj lv))) \<and>
        isFunction (property (obj lv) (normalizeMethods (obj lv) (u_childViewEvents (obj lv))) e)"
    unfolding cascade_unfold [OF assms] set_append Un_iff
    by (rule disjI2, rule disjI1) (use that in simp)
  show "emit (obj lv) (Imported_triggerMethod s args)
          \<in> set (u_triggerEventOnParentLayout this e args)"
    if "truthy (u_childViewTriggers (obj lv)) \<and>
        property (obj lv) (u_childViewTriggers (obj lv)) e = Str s" for s
  proof -
    have retrigger: "(if truthy (u_childViewTriggers (obj lv)) \<and>
             isString (property (obj lv) (u_childViewTriggers (obj lv)) e)
          then (case property (obj lv) (u_childViewTriggers (obj lv)) e of
                  Str s \<Rightarrow> snd (triggerMethod lv s args)
                | _ \<Rightarrow> [])
          else []) = snd (triggerMethod lv s args)"
      using that by simp
    show ?thesis
      unfolding cascade_unfold [OF assms] retrigger set_append Un_iff
      by (rule disjI2, rule disjI2) (simp add: triggerMethod_unfold)
  qed
qed

theorem cascade_prefix_per_hop_witness:
  "u_parentView tree_C = Some tree_P \<and> u_parentView tree_P = Some tree_G \<and>
   take 2 (u_triggerEventOnParentLayout tree_C ''save'' [Ref 1]) =
     [Effect ''P'' False False False (Imported_triggerMethod ''childview:save'' [Ref 1]),
      Effect ''P'' False False False (U_triggerEventOnBehaviors ''childview:save'' [Ref 1])] \<and>
   take 2 (drop 2 (u_triggerEventOnParentLayout tree_C ''save'' [Ref 1])) =
     [Effect ''G'' False False False (Imported_triggerMethod ''layout:childview:save'' [Ref 1]),
      Effect ''G'' False False False
        (U_triggerEventOnBehaviors ''layout:childview:save'' [Ref 1])] \<and>
   Effect ''P'' False False False (Apply_childViewEvents (Fun ''onChildSave'') [Ref 1])
     \<in> set (u_triggerEventOnParentLayout tree_C ''save'' [Ref 1]) \<and>
   Effect ''P'' False False False (Imported_triggerMethod ''saved'' [Ref 1])
     \<in> set (u_triggerEventOnParentLayout tree_C ''save'' [Ref 1]) \<and>
   Effect ''P'' False False False (Apply_childViewEvents (Fun ''onPrefixed'') [Ref 1])
     \<notin> set (u_triggerEventOnParentLayout tree_C ''save'' [Ref 1]) \<and>
   Effect ''P'' False False False (Imported_triggerMethod ''prefixed'' [Ref 1])
     \<notin> set (u_triggerEventOnParentLayout tree_C ''save'' [Ref 1])"
proof -
  have unused:
    "Effect ''P'' False False False (Apply_childViewEvents (Fun ''onPrefixed'') [Ref 1])
       \<notin> set (u_triggerEventOnParentLayout tree_C ''save'' [Ref 1]) \<and>
     Effect ''P'' False False False (Imported_triggerMethod ''prefixed'' [Ref 1])
       \<notin> set (u_triggerEventOnParentLayout tree_C ''save'' [Ref 1])"
    by (simp add: eval_defs)
  have p: "u_parentView tree_C = Some tree_P"
    by (simp add: tree_defs u_parentView_def)
  have g: "u_parentView tree_P = Some tree_G"
    by (simp add: tree_defs u_parentView_def)
  have f: "truthy (normalizeMethods (obj tree_P) (u_childViewEvents (obj tree_P))) \<and>
      isFunction (property (obj tree_P) (normalizeMethods (obj tree_P) (u_childViewEvents (obj tree_P)))
        ''save'')"
    by (simp add: tree_defs property_def plain_property_def Object_prototype_def)
  have fv: "property (obj tree_P) (normalizeMethods (obj tree_P) (u_childViewEvents (obj tree_P))) ''save'' =
      Fun ''onChildSave''"
    by (simp add: tree_defs property_def plain_property_def Object_prototype_def)
  have s: "truthy (u_childViewTriggers (obj tree_P)) \<and>
      property (obj tree_P) (u_childViewTriggers (obj tree_P)) ''save'' = Str ''saved''"
    by (simp add: tree_defs property_def plain_property_def Object_prototype_def)
  have pe: "emit (obj tree_P) c = Effect ''P'' False False False c" for c
    by (simp add: tree_defs emit_def)
  have ge: "emit (obj tree_G) c = Effect ''G'' False False False c" for c
    by (simp add: tree_defs emit_def)
  have pp: "childViewEventPrefix (obj tree_P) = ''childview''"
    by (simp add: tree_defs)
  have gp: "childViewEventPrefix (obj tree_G) = ''layout''"
    by (simp add: tree_defs)
  from cascade_prefix_per_hop [OF p, of "''save''" "[Ref 1]" "''x''"] g f s unused
  show ?thesis
    by (simp add: p g pe ge pp gp fv)
qed

subsection \<open>Locating the ancestor view\<close>

text \<open>
  Claim C7. \<^verbatim>\<open>_parentView\<close> returns the first object of the \<^verbatim>\<open>_parent\<close> chain, from
  the nearest upward, that is an instance of \<^verbatim>\<open>View\<close>, and nothing when the chain
  has none. In that case the cascade makes no call: \<^verbatim>\<open>triggerMethod\<close> only invokes
  the view's own method and notifies its behaviors.
\<close>

theorem parentView_first_view:
  "u_parentView this = List.find instanceofView (ancestors this) \<and>
   (u_parentView this = None \<longrightarrow>
      u_triggerEventOnParentLayout this e args = [] \<and>
      snd (triggerMethod this e args) =
        [emit (obj this) (Imported_triggerMethod e args),
         emit (obj this) (U_triggerEventOnBehaviors e args)])"
  by (simp add: u_parentView_def ancestors_def parentView_loop_find cascade_None
        triggerMethod_unfold)

theorem parentView_first_view_witness:
  "u_parentView tree_O = None \<and>
   List.find instanceofView (ancestors tree_O) = None \<and>
   u_triggerEventOnParentLayout tree_O ''save'' [] = [] \<and>
   snd (triggerMethod tree_O ''save'' []) =
     [Effect ''O'' False False False (Imported_triggerMethod ''save'' []),
      Effect ''O'' False False False (U_triggerEventOnBehaviors ''save'' [])] \<and>
   u_parentView tree_C = Some tree_P \<and>
   List.find instanceofView (ancestors tree_C) = Some tree_P"
proof -
  have none: "u_parentView tree_O = None"
    by (simp add: tree_defs tree_O_def u_parentView_def)
  have some: "u_parentView tree_C = Some tree_P"
    by (simp add: tree_defs tree_O_def u_parentView_def)
  have e: "emit (obj tree_O) c = Effect ''O'' False False False c" for c
    by (simp add: tree_defs tree_O_def emit_def)
  from parentView_first_view [of tree_O "''save''" "[]"]
       parentView_first_view [of tree_C "''save''" "[]"] none some
  show ?thesis
    by (simp add: e)
qed

subsection \<open>Looking up a UI element\<close>

text \<open>
  Claim C8. On a destroyed view \<^verbatim>\<open>getUI\<close> fails with the error named
  \<^verbatim>\<open>ViewDestroyedError\<close>, whose message quotes the view's \<^verbatim>\<open>cid\<close>; on a live view it
  returns what the lookup \<^verbatim>\<open>_getUI\<close> returns for the name.
\<close>

theorem getUI_guard:
  "(isDestroyed this \<longrightarrow>
      getUI this n =
        Inl (MarionetteError ''ViewDestroyedError''
               (''View (cid: '' @ [CHR 0x22] @ cid this @ [CHR 0x22]
                  @ '') has already been destroyed and cannot be used.''))) \<and>
   (\<not> isDestroyed this \<longrightarrow> getUI this n = Inr (u_getUI this n))"
  by (simp add: getUI_def u_ensureViewIsIntact_def isDestroyed_def)

theorem getUI_guard_witness:
  "isDestroyed (obj tree_D) \<and>
   getUI (obj tree_D) ''foo'' =
     Inl (MarionetteError ''ViewDestroyedError''
            (''View (cid: '' @ [CHR 0x22] @ ''D'' @ [CHR 0x22]
               @ '') has already been destroyed and cannot be used.'')) \<and>
   \<not> isDestroyed (obj tree_C) \<and>
   getUI (obj tree_C) ''foo'' = Inr (Ref 7)"
proof -
  have d: "isDestroyed (obj tree_D)"
    by (simp add: tree_defs tree_D_def isDestroyed_def)
  have c: "\<not> isDestroyed (obj tree_C)"
    by (simp add: tree_defs tree_D_def isDestroyed_def)
  from getUI_guard [of "obj tree_D" "''foo''"] getUI_guard [of "obj tree_C" "''foo''"] d c
  show ?thesis
    by (simp add: tree_defs tree_D_def)
qed

subsection \<open>Operations on a destroyed view\<close>

text \<open>
  The statement that every mutating operation rejects a destroyed view fails on the
  destroyed view \<open>D\<close>: \<^verbatim>\<open>triggerMethod\<close> returns and makes its calls on \<open>D\<close> and on
  the grandparent, and \<^verbatim>\<open>delegateEvents\<close> hands a map to Backbone. Only \<^verbatim>\<open>getUI\<close>
  calls \<^verbatim>\<open>_ensureViewIsIntact\<close>; \<^verbatim>\<open>destroy\<close> itself dispatches \<^verbatim>\<open>'destroy'\<close> after it
  has set \<^verbatim>\<open>_isDestroyed\<close>.
\<close>

theorem destroyed_view_not_rejected_counterexample:
  "isDestroyed (obj tree_D) \<and>
   triggerMethod tree_D ''render'' [] =
     (Undefined,
      [Effect ''D'' True False False (Imported_triggerMethod ''render'' []),
       Effect ''D'' True False False (U_triggerEventOnBehaviors ''render'' []),
       Effect ''G'' False False False (Imported_triggerMethod ''layout:render'' []),
       Effect ''G'' False False False (U_triggerEventOnBehaviors ''layout:render'' [])]) \<and>
   snd (delegateEvents (obj tree_D) Undefined) =
     [Effect ''D'' True False False U_proxyBehaviorViewProperties,
      Effect ''D'' True False False (Backbone_delegateEvents (Hash []))]"
  by (simp add: tree_defs tree_D_def u_triggerEventOnParentLayout.simps triggerMethod.simps
        u_parentView_def property_def plain_property_def Object_prototype_def emit_def Let_def isDestroyed_def
        delegateEvents_def u_buildEventProxies_def getEvents_def getTriggers_def js_or_def
        underscore_extend_def extend_source_def)

text \<open>
  Claim C9, amended. On a destroyed view \<^verbatim>\<open>getUI\<close> fails with
  \<^verbatim>\<open>ViewDestroyedError\<close>. \<^verbatim>\<open>delegateEvents\<close>, \<^verbatim>\<open>delegateEntityEvents\<close>,
  \<^verbatim>\<open>undelegateEntityEvents\<close>, \<^verbatim>\<open>bindUIElements\<close> and \<^verbatim>\<open>triggerMethod\<close> are not
  guarded: each makes its calls, which see the view destroyed, and returns.
\<close>

theorem destroyed_view_operations:
  assumes "isDestroyed (obj this)"
  shows "getUI (obj this) n =
           Inl (MarionetteError ''ViewDestroyedError''
                  (''View (cid: '' @ [CHR 0x22] @ cid (obj this) @ [CHR 0x22]
                     @ '') has already been destroyed and cannot be used.'')) \<and>
         snd (delegateEvents (obj this) eventsArg) =
           [Effect (cid (obj this)) True (u_isRendered (obj this)) (u_isAttached (obj this))
              U_proxyBehaviorViewProperties,
            Effect (cid (obj this)) True (u_isRendered (obj this)) (u_isAttached (obj this))
              (Backbone_delegateEvents
                 (Hash (underscore_extend []
                    [u_getBehaviorEvents (obj this), getEvents (obj this) eventsArg,
                     u_getBehaviorTriggers (obj this), getTriggers (obj this)])))] \<and>
         delegateEntityEvents (obj this) =
           (obj this,
            [Effect (cid (obj this)) True (u_isRendered (obj this)) (u_isAttached (obj this))
               (U_delegateEntityEvents (model (obj this)) (collection (obj this))),
             Effect (cid (obj this)) True (u_isRendered (obj this)) (u_isAttached (obj this))
               U_delegateBehaviorEntityEvents]) \<and>
         undelegateEntityEvents (obj this) =
           (obj this,
            [Effect (cid (obj this)) True (u_isRendered (obj this)) (u_isAttached (obj this))
               (U_undelegateEntityEvents (model (obj this)) (collection (obj this))),
             Effect (cid (obj this)) True (u_isRendered (obj this)) (u_isAttached (obj this))
               U_undelegateBehaviorEntityEvents]) \<and>
         bindUIElements (obj this) =
           (obj this,
            [Effect (cid (obj this)) True (u_isRendered (obj this)) (u_isAttached (obj this))
               U_bindUIElements,
             Effect (cid (obj this)) True (u_isRendered (obj this)) (u_isAttached (obj this))
               U_bindBehaviorUIElements]) \<and>
         triggerMethod this e args =
           (imported_triggerMethod (obj this) e args,
            Effect (cid (obj this)) True (u_isRendered (obj this)) (u_isAttached (obj this))
              (Imported_triggerMethod e args)
            # Effect (cid (obj this)) True (u_isRendered (obj this)) (u_isAttached (obj this))
                (U_triggerEventOnBehaviors e args)
            # u_triggerEventOnParentLayout this e args)"
proof -
  from assms have d: "u_isDestroyed (obj this)"
    by (simp add: isDestroyed_def)
  have e: "emit (obj this) c =
      Effect (cid (obj this)) True (u_isRendered (obj this)) (u_isAttached (obj this)) c" for c
    using d by (simp add: emit_def)
  have 1: "getUI (obj this) n =
           Inl (MarionetteError ''ViewDestroyedError''
                  (''View (cid: '' @ [CHR 0x22] @ cid (obj this) @ [CHR 0x22]
                     @ '') has already been destroyed and cannot be used.''))"
    using d by (simp add: getUI_def u_ensureViewIsIntact_def)
  have 2: "snd (delegateEvents (obj this) eventsArg) =
           [emit (obj this) U_proxyBehaviorViewProperties,
            emit (obj this)
              (Backbone_delegateEvents
                 (Hash (underscore_extend []
                    [u_getBehaviorEvents (obj this), getEvents (obj this) eventsArg,
                     u_getBehaviorTriggers (obj this), getTriggers (obj this)])))]"
    by (simp add: delegateEvents_def Let_def getEvents_buildEventProxies)
       (simp add: u_buildEventProxies_def Let_def getTriggers_def emit_def)
  have 3: "delegateEntityEvents (obj this) =
           (obj this,
            [emit (obj this) (U_delegateEntityEvents (model (obj this)) (collection (obj this))),
             emit (obj this) U_delegateBehaviorEntityEvents])"
    by (simp add: delegateEntityEvents_def)
  have 4: "undelegateEntityEvents (obj this) =
           (obj this,
            [emit (obj this)
               (U_undelegateEntityEvents (model (obj this)) (collection (obj this))),
             emit (obj this) U_undelegateBehaviorEntityEvents])"
    by (simp add: undelegateEntityEvents_def)
  have 5: "bindUIElements (obj this) =
           (obj this, [emit (obj this) U_bindUIElements, emit (obj this) U_bindBehaviorUIElements])"
    by (simp add: bindUIElements_def)
  have 6: "triggerMethod this e args =
           (imported_triggerMethod (obj this) e args,
            emit (obj this) (Imported_triggerMethod e args)
            # emit (obj this) (U_triggerEventOnBehaviors e args)
            # u_triggerEventOnParentLayout this e args)"
    by (rule triggerMethod_unfold)
  from 1 2 3 4 5 6 show ?thesis
    unfolding e by simp
qed

theorem destroyed_view_operations_witness:
  "isDestroyed (obj tree_D) \<and>
   getUI (obj tree_D) ''foo'' =
     Inl (MarionetteError ''ViewDestroyedError''
            (''View (cid: '' @ [CHR 0x22] @ ''D'' @ [CHR 0x22]
               @ '') has already been destroyed and cannot be used.'')) \<and>
   snd (delegateEvents (obj tree_D) Undefined) =
     [Effect ''D'' True False False U_proxyBehaviorViewProperties,
      Effect ''D'' True False False (Backbone_delegateEvents (Hash []))] \<and>
   snd (delegateEntityEvents (obj tree_D)) =
     [Effect ''D'' True False False (U_delegateEntityEvents Undefined Undefined),
      Effect ''D'' True False False U_delegateBehaviorEntityEvents] \<and>
   snd (undelegateEntityEvents (obj tree_D)) =
     [Effect ''D'' True False False (U_undelegateEntityEvents Undefined Undefined),
      Effect ''D'' True False False U_undelegateBehaviorEntityEvents] \<and>
   snd (bindUIElements (obj tree_D)) =
     [Effect ''D'' True False False U_bindUIElements,
      Effect ''D'' True False False U_bindBehaviorUIElements] \<and>
   triggerMethod tree_D ''render'' [] =
     (Undefined,
      [Effect ''D'' True False False (Imported_triggerMethod ''render'' []),
       Effect ''D'' True False False (U_triggerEventOnBehaviors ''render'' []),
       Effect ''G'' False False False (Imported_triggerMethod ''layout:render'' []),
       Effect ''G'' False False False (U_triggerEventOnBehaviors ''layout:render'' [])])"
proof -
  have d: "isDestroyed (obj tree_D)"
    by (simp add: tree_defs tree_D_def isDestroyed_def)
  from d destroyed_view_operations [OF d, of "''foo''" Undefined "''render''" "[]"]
  show ?thesis
    by (simp add: tree_defs tree_D_def u_triggerEventOnParentLayout.simps triggerMethod.simps
          u_parentView_def property_def plain_property_def Object_prototype_def emit_def Let_def
          u_buildEventProxies_def getEvents_def getTriggers_def js_or_def
          underscore_extend_def extend_source_def)
qed

subsection \<open>The order of one forwarding step\<close>

text \<open>
  Claim C10. One forwarding step to the ancestor view makes its calls in this
  order: the ancestor's dispatch of the prefixed name, with the whole cascade of
  that name above the ancestor; then, when the ancestor's \<^verbatim>\<open>childViewEvents\<close> holds
  a function under the unprefixed name, the application of that function with the
  same arguments; then, when its \<^verbatim>\<open>childViewTriggers\<close> holds a string under the
  unprefixed name, the ancestor's dispatch of that string. What a map holds under
  a name is what the lookup \<^verbatim>\<open>map[eventName]\<close> finds: an own property or an
  inherited one, so that an event named \<^verbatim>\<open>'toString'\<close> finds the function every
  plain object inherits.
\<close>

theorem cascade_forwarding_order:
  assumes "u_parentView this = Some lv"
  shows "u_triggerEventOnParentLayout this e args =
     [emit (obj lv) (Imported_triggerMethod (childViewEventPrefix (obj lv) @ '':'' @ e) args),
      emit (obj lv) (U_triggerEventOnBehaviors (childViewEventPrefix (obj lv) @ '':'' @ e) args)]
     @ u_triggerEventOnParentLayout lv (childViewEventPrefix (obj lv) @ '':'' @ e) args
     @ (if truthy (normalizeMethods (obj lv) (u_childViewEvents (obj lv))) \<and>
           isFunction (property (obj lv) (normalizeMethods (obj lv) (u_childViewEvents (obj lv))) e)
        then [emit (obj lv)
                (Apply_childViewEvents
                   (property (obj lv) (normalizeMethods (obj lv) (u_childViewEvents (obj lv))) e) args)]
        else [])
     @ (if truthy (u_childViewTriggers (obj lv)) \<and>
           isString (property (obj lv) (u_childViewTriggers (obj lv)) e)
        then (case property (obj lv) (u_childViewTriggers (obj lv)) e of
                Str s \<Rightarrow>
                  [emit (obj lv) (Imported_triggerMethod s args),
                   emit (obj lv) (U_triggerEventOnBehaviors s args)]
                  @ u_triggerEventOnParentLayout lv s args
              | _ \<Rightarrow> [])
        else [])"
  by (simp add: cascade_unfold [OF assms] triggerMethod_unfold split: val.splits)

theorem cascade_forwarding_order_witness:
  "u_parentView tree_C = Some tree_P \<and>
   u_triggerEventOnParentLayout tree_C ''save'' [Ref 1] =
     [Effect ''P'' False False False (Imported_triggerMethod ''childview:save'' [Ref 1]),
      Effect ''P'' False False False (U_triggerEventOnBehaviors ''childview:save'' [Ref 1]),
      Effect ''G'' False False False (Imported_triggerMethod ''layout:childview:save'' [Ref 1]),
      Effect ''G'' False False False
        (U_triggerEventOnBehaviors ''layout:childview:save'' [Ref 1]),
      Effect ''P'' False False False (Apply_childViewEvents (Fun ''onChildSave'') [Ref 1]),
      Effect ''P'' False False False (Imported_triggerMethod ''saved'' [Ref 1]),
      Effect ''P'' False False False (U_triggerEventOnBehaviors ''saved'' [Ref 1]),
      Effect ''G'' False False False (Imported_triggerMethod ''layout:saved'' [Ref 1]),
      Effect ''G'' False False False (U_triggerEventOnBehaviors ''layout:saved'' [Ref 1])] \<and>
   u_parentView tree_K = Some tree_Q \<and>
   u_triggerEventOnParentLayout tree_K ''toString'' [] =
     [Effect ''Q'' False False False (Imported_triggerMethod ''childview:toString'' []),
      Effect ''Q'' False False False (U_triggerEventOnBehaviors ''childview:toString'' []),
      Effect ''Q'' False False False
        (Apply_childViewEvents (Fun ''Object.prototype.toString'') [])] \<and>
   u_triggerEventOnParentLayout tree_K ''save'' [] =
     [Effect ''Q'' False False False (Imported_triggerMethod ''childview:save'' []),
      Effect ''Q'' False False False (U_triggerEventOnBehaviors ''childview:save'' [])] \<and>
   u_triggerEventOnParentLayout tree_K ''0'' [] =
     [Effect ''Q'' False False False (Imported_triggerMethod ''childview:0'' []),
      Effect ''Q'' False False False (U_triggerEventOnBehaviors ''childview:0'' []),
      Effect ''Q'' False False False (Imported_triggerMethod ''a'' []),
      Effect ''Q'' False False False (U_triggerEventOnBehaviors ''a'' [])]"
proof -
  have p: "u_parentView tree_C = Some tree_P"
    by (simp add: tree_defs u_parentView_def)
  have q: "u_parentView tree_K = Some tree_Q"
    by (simp add: tree_K_def tree_Q_def inert_def u_parentView_def)
  have c: "u_triggerEventOnParentLayout tree_C ''save'' [Ref 1] =
     [Effect ''P'' False False False (Imported_triggerMethod ''childview:save'' [Ref 1]),
      Effect ''P'' False False False (U_triggerEventOnBehaviors ''childview:save'' [Ref 1]),
      Effect ''G'' False False False (Imported_triggerMethod ''layout:childview:save'' [Ref 1]),
      Effect ''G'' False False False
        (U_triggerEventOnBehaviors ''layout:childview:save'' [Ref 1]),
      Effect ''P'' False False False (Apply_childViewEvents (Fun ''onChildSave'') [Ref 1]),
      Effect ''P'' False False False (Imported_triggerMethod ''saved'' [Ref 1]),
      Effect ''P'' False False False (U_triggerEventOnBehaviors ''saved'' [Ref 1]),
      Effect ''G'' False False False (Imported_triggerMethod ''layout:saved'' [Ref 1]),
      Effect ''G'' False False False (U_triggerEventOnBehaviors ''layout:saved'' [Ref 1])]"
    using cascade_forwarding_order [OF p, of "''save''" "[Ref 1]"]
    by (simp add: eval_defs)
  have k1: "u_triggerEventOnParentLayout tree_K ''toString'' [] =
     [Effect ''Q'' False False False (Imported_triggerMethod ''childview:toString'' []),
      Effect ''Q'' False False False (U_triggerEventOnBehaviors ''childview:toString'' []),
      Effect ''Q'' False False False
        (Apply_childViewEvents (Fun ''Object.prototype.toString'') [])]"
    using cascade_forwarding_order [OF q, of "''toString''" "[]"]
    by (simp add: tree_K_def tree_Q_def eval_defs)
  have k2: "u_triggerEventOnParentLayout tree_K ''save'' [] =
     [Effect ''Q'' False False False (Imported_triggerMethod ''childview:save'' []),
      Effect ''Q'' False False False (U_triggerEventOnBehaviors ''childview:save'' [])]"
    using cascade_forwarding_order [OF q, of "''save''" "[]"]
    by (simp add: tree_K_def tree_Q_def eval_defs)
  have k3: "u_triggerEventOnParentLayout tree_K ''0'' [] =
     [Effect ''Q'' False False False (Imported_triggerMethod ''childview:0'' []),
      Effect ''Q'' False False False (U_triggerEventOnBehaviors ''childview:0'' []),
      Effect ''Q'' False False False (Imported_triggerMethod ''a'' []),
      Effect ''Q'' False False False (U_triggerEventOnBehaviors ''a'' [])]"
    using cascade_forwarding_order [OF q, of "''0''" "[]"]
    by (simp add: tree_K_def tree_Q_def eval_defs)
  from p q c k1 k2 k3 show ?thesis
    by simp
qed

end
